theory Spec2Isabelle
  imports Complex_Main "HOL-Library.Word"
begin

unbundle bit_operations_syntax

section \<open>The emulator core of \<^verbatim>\<open>src/core/emu.cpp\<close>\<close>

text \<open>
  The file drives a simulated ARM CPU: \<^verbatim>\<open>emu_start\<close> boots or resumes the machine,
  \<^verbatim>\<open>emu_loop\<close> runs it, \<^verbatim>\<open>error\<close> unwinds to the loop's checkpoint,
  \<^verbatim>\<open>throttle_interval_event\<close> paces it, \<^verbatim>\<open>emu_suspend\<close> writes a snapshot and
  \<^verbatim>\<open>emu_cleanup\<close> tears everything down. The global variables of the C++ file are the
  fields of one machine record that every function takes and returns.

  The headers (\<^verbatim>\<open>emu.h\<close>, \<^verbatim>\<open>cpu.h\<close>, \<^verbatim>\<open>schedule.h\<close>, \<^verbatim>\<open>mem.h\<close>) are not part of
  the source under study. The numeric macros they define are the fields of the record
  \<open>emu_h\<close>, a parameter of every function that uses one; the enumeration constants the
  file only passes around are constructors of small datatypes. The functions of the other
  subsystems (interpreter, scheduler, memory, flash, debugger stubs, front end) are the
  fields of the record \<open>collab\<close>, again a parameter. The model is the default build:
  neither \<^verbatim>\<open>NO_TRANSLATION\<close> nor \<^verbatim>\<open>IS_IOS_BUILD\<close> is defined.
\<close>

subsection \<open>Data\<close>

type_synonym u32 = "32 word"
type_synonym byte = "8 word"

text \<open>A C string: its bytes up to, and without, the terminating NUL.\<close>
type_synonym cstring = "byte list"

record emu_h =
  EVENT_IRQ :: u32
  EVENT_FIQ :: u32
  EVENT_RESET :: u32
  EVENT_DEBUG_STEP :: u32
  EVENT_WAITING :: u32
  MODE_SVC :: u32
  RF_READ_ONLY :: u32
  sizeof_emu_snapshot :: nat
  sizeof_path_boot1 :: nat
  sizeof_path_flash :: nat

datatype exception_vec = EX_IRQ | EX_FIQ

datatype clock_id = CLOCK_27M | CLOCK_other nat

datatype sched_slot = SCHED_THROTTLE | SCHED_other nat

text \<open>The value of a \<^verbatim>\<open>proc\<close> function pointer of a scheduler slot.\<close>
datatype callback = NULL_proc | Throttle_interval_event | Other_proc nat

text \<open>
  \<^verbatim>\<open>struct arm_state\<close>: the register file (\<open>reg a 15\<close> is the program counter), the
  control register, the low 28 bits of the status register, and the fields this file never
  names, as raw words.
\<close>
record arm_state =
  reg :: "nat \<Rightarrow> u32"
  control :: u32
  cpsr_low28 :: u32
  arm_rest :: "u32 list"

record sched_item =
  clock :: clock_id
  proc :: callback
  item_rest :: "u32 list"

record sched_state =
  items :: "sched_slot \<Rightarrow> sched_item"
  sched_rest :: "u32 list"

text \<open>
  One entry of \<^verbatim>\<open>mem_areas\<close>: the buffer behind \<^verbatim>\<open>ptr\<close>, its \<^verbatim>\<open>size\<close>, and the
  per-word flags that \<^verbatim>\<open>RAM_FLAGS\<close> reaches from a data address.
\<close>
record mem_area =
  ptr :: "byte list"
  area_size :: nat
  ram_flags :: "u32 list"

text \<open>
  What belongs to the collaborating subsystems: the memory areas, which this file writes
  directly, and their private state (MMU, flash, debugger stubs, translation cache, front
  end), which it never looks into.
\<close>
record 'p hw_state =
  mem_areas :: "nat \<Rightarrow> mem_area"
  priv :: 'p

text \<open>
  The \<^verbatim>\<open>static\<close> variables of \<^verbatim>\<open>throttle_interval_event\<close>. \<open>prev\<close> is a time stamp in
  microseconds, \<open>None\<close> until the first call initialises it. \<open>speed\<close> is a \<^verbatim>\<open>double\<close> in the source; the model keeps the exact
  quotient, of which the \<^verbatim>\<open>double\<close> is the correctly rounded value (the product
  \<^verbatim>\<open>(double)10000 * n\<close> is exact for every 32-bit \<open>n\<close>).
\<close>
record throttle_static =
  intervals :: int
  prev_intervals :: int
  prev :: "int option"
  speed :: rat

text \<open>
  The record the model keeps, in program order, of the calls that leave this file and
  matter to a claim: reports to the front end, the debugger, the scheduler's event
  processing, exception entry (with the vector and \<^verbatim>\<open>arm.reg[15]\<close> at the call), the
  interpreter (Thumb or not, with \<^verbatim>\<open>cpu_events\<close> at the call), the read of the snapshot's
  signature and the resume steps; \<open>Reset_block\<close> marks a pass through the reset block.
\<close>
datatype event =
    Report_error u32
  | Debugger
  | Status_reset
  | Reset_block
  | Sched_process
  | Cpu_exception exception_vec u32
  | Dispatch bool u32
  | Read_sig
  | Flash_resume
  | Flash_read_settings
  | Cpu_resume
  | Memory_resume
  | Sched_resume
  | Show_speed rat
  | Perror cstring

record 'p machine =
  arm :: arm_state
  cpu_events :: u32
  cycle_count_delta :: int
  exiting :: bool
  sched :: sched_state
  hw :: "'p hw_state"
  product_id :: u32
  asic_user_flags :: u32
  turbo_mode :: bool
  debug_on_start :: bool
  boot_order :: nat
  path_boot1 :: "cstring option"
  path_flash :: "cstring option"
  throttle :: throttle_static
  trace :: "event list"

text \<open>
  \<^verbatim>\<open>struct emu_snapshot\<close>: the header fields this file reads and writes, and the
  sub-regions of the other subsystems (with the variable-length flash part) as raw bytes
  by offset.
\<close>
record emu_snapshot =
  sig :: u32
  snap_product :: u32
  snap_asic_user_flags :: u32
  snap_path_boot1 :: "byte list"
  snap_path_flash :: "byte list"
  regions :: "nat \<Rightarrow> byte"

text \<open>
  A file on disk, seen as the code sees it through the mapping: its length, and its first
  \<^verbatim>\<open>sizeof(emu_snapshot)\<close> bytes read as the struct (bytes past the end of a shorter file
  read as zero, which is also what \<^verbatim>\<open>ftruncate\<close> appends when it lengthens the file).
\<close>
record snapshot_file =
  fsize :: nat
  content :: emu_snapshot

text \<open>
  A call into another subsystem either returns, or ends in \<^verbatim>\<open>error\<close>, which does not
  return to its caller; \<open>Raised m\<close> carries the machine at the moment \<^verbatim>\<open>error\<close> is entered.
\<close>
datatype 'a outcome = Returned 'a | Raised 'a

record 'p collab =
  sched_reset :: "sched_state \<Rightarrow> sched_state"
  sched_update_next_event :: "u32 \<Rightarrow> sched_state \<Rightarrow> sched_state \<times> int"
  sched_process_pending_events :: "'p machine \<Rightarrow> 'p machine outcome"
  memory_reset :: "'p hw_state \<Rightarrow> 'p hw_state"
  memory_deinitialize :: "'p hw_state \<Rightarrow> 'p hw_state"
  memory_initialize :: "u32 \<Rightarrow> 'p hw_state \<Rightarrow> bool \<times> 'p hw_state"
  gdbstub_reset :: "'p hw_state \<Rightarrow> 'p hw_state"
  addr_cache_flush :: "'p hw_state \<Rightarrow> 'p hw_state"
  flush_translations :: "'p hw_state \<Rightarrow> 'p hw_state"
  cpu_exception :: "exception_vec \<Rightarrow> 'p machine \<Rightarrow> 'p machine outcome"
  cpu_arm_loop :: "'p machine \<Rightarrow> 'p machine outcome"
  cpu_thumb_loop :: "'p machine \<Rightarrow> 'p machine outcome"
  debugger :: "'p machine \<Rightarrow> 'p machine"
  close_debugger_input :: "'p hw_state \<Rightarrow> 'p hw_state"
  translate_init :: "'p hw_state \<Rightarrow> 'p hw_state"
  translate_deinit :: "'p hw_state \<Rightarrow> 'p hw_state"
  addr_cache_init :: "'p hw_state \<Rightarrow> 'p hw_state"
  throttle_timer_on :: "'p hw_state \<Rightarrow> 'p hw_state"
  throttle_timer_wait :: "'p hw_state \<Rightarrow> 'p hw_state"
  gdbstub_init :: "nat \<Rightarrow> 'p hw_state \<Rightarrow> 'p hw_state"
  rdebug_bind :: "nat \<Rightarrow> 'p hw_state \<Rightarrow> 'p hw_state"
  gdbstub_quit :: "'p hw_state \<Rightarrow> 'p hw_state"
  rdebug_quit :: "'p hw_state \<Rightarrow> 'p hw_state"
  throttle_io :: "'p machine \<Rightarrow> 'p machine"
  gui_do_stuff :: "'p hw_state \<Rightarrow> 'p hw_state"
  event_repeat :: "sched_slot \<Rightarrow> nat \<Rightarrow> sched_state \<Rightarrow> sched_state"
  flash_open :: "cstring \<Rightarrow> 'p hw_state \<Rightarrow> bool \<times> 'p hw_state"
  flash_close :: "'p hw_state \<Rightarrow> 'p hw_state"
  flash_set_bootorder :: "nat \<Rightarrow> 'p hw_state \<Rightarrow> 'p hw_state"
  flash_read_settings :: "'p machine \<Rightarrow> (bool \<times> u32) \<times> 'p machine"
  flash_resume :: "emu_snapshot \<Rightarrow> 'p machine \<Rightarrow> bool \<times> 'p machine"
  cpu_resume :: "emu_snapshot \<Rightarrow> 'p machine \<Rightarrow> bool \<times> 'p machine"
  memory_resume :: "emu_snapshot \<Rightarrow> 'p machine \<Rightarrow> bool \<times> 'p machine"
  sched_resume :: "emu_snapshot \<Rightarrow> 'p machine \<Rightarrow> bool \<times> 'p machine"
  flash_suspend_flexsize :: "'p machine \<Rightarrow> nat"
  flash_suspend :: "'p machine \<Rightarrow> emu_snapshot \<Rightarrow> bool \<times> emu_snapshot"
  cpu_suspend :: "'p machine \<Rightarrow> emu_snapshot \<Rightarrow> bool \<times> emu_snapshot"
  sched_suspend :: "'p machine \<Rightarrow> emu_snapshot \<Rightarrow> bool \<times> emu_snapshot"
  memory_suspend :: "'p machine \<Rightarrow> emu_snapshot \<Rightarrow> bool \<times> emu_snapshot"
  os_open_read :: "cstring \<Rightarrow> bool"
  os_open_create :: "cstring \<Rightarrow> bool"
  os_ftruncate :: "cstring \<Rightarrow> nat \<Rightarrow> bool"
  os_mmap :: "cstring \<Rightarrow> nat \<Rightarrow> bool"
  os_fopen_read :: "cstring \<Rightarrow> byte list option"


subsection \<open>Calls that leave the file\<close>

definition emit :: "event \<Rightarrow> 'p machine \<Rightarrow> 'p machine" where
  "emit e m = m\<lparr>trace := trace m @ [e]\<rparr>"

text \<open>
  A call of a collaborator that sees the whole machine: the event is recorded and the
  callee has no access to the record of events.
\<close>
definition call_m :: "event \<Rightarrow> ('p machine \<Rightarrow> 'p machine) \<Rightarrow> 'p machine \<Rightarrow> 'p machine" where
  "call_m e f m = (f m)\<lparr>trace := trace m @ [e]\<rparr>"

definition call_o ::
  "event \<Rightarrow> ('p machine \<Rightarrow> 'p machine outcome) \<Rightarrow> 'p machine \<Rightarrow> 'p machine outcome" where
  "call_o e f m =
     (case f m of
        Returned m' \<Rightarrow> Returned (m'\<lparr>trace := trace m @ [e]\<rparr>)
      | Raised m' \<Rightarrow> Raised (m'\<lparr>trace := trace m @ [e]\<rparr>))"

definition call_b ::
  "event \<Rightarrow> ('p machine \<Rightarrow> 'a \<times> 'p machine) \<Rightarrow> 'p machine \<Rightarrow> 'a \<times> 'p machine" where
  "call_b e f m = (case f m of (ok, m') \<Rightarrow> (ok, m'\<lparr>trace := trace m @ [e]\<rparr>))"

subsection \<open>\<^verbatim>\<open>error\<close>\<close>

text \<open>
  Lines 66-77. The message goes to the front end with \<^verbatim>\<open>arm.reg[15]\<close>, the debugger is
  entered, \<^verbatim>\<open>EVENT_RESET\<close> is set, and \<^verbatim>\<open>__builtin_longjmp\<close> leaves for the checkpoint of
  \<^verbatim>\<open>emu_loop\<close>: \<open>error\<close> yields the machine with which control arrives there.
\<close>
definition error :: "'p collab \<Rightarrow> emu_h \<Rightarrow> 'p machine \<Rightarrow> 'p machine" where
  "error X K m =
     (let m1 = emit (Report_error (reg (arm m) 15)) m;
          m2 = call_m Debugger (debugger X) m1
      in m2\<lparr>cpu_events := cpu_events m2 OR EVENT_RESET K\<rparr>)"

subsection \<open>\<^verbatim>\<open>emu_loop\<close>\<close>

text \<open>\<^verbatim>\<open>memset(mem_areas[1].ptr, 0, mem_areas[1].size)\<close>\<close>
definition clear_area1 :: "'p hw_state \<Rightarrow> 'p hw_state" where
  "clear_area1 h =
     (let a = mem_areas h 1
      in h\<lparr>mem_areas := (mem_areas h)
            (1 := a\<lparr>ptr := replicate (area_size a) 0 @ drop (area_size a) (ptr a)\<rparr>)\<rparr>)"

text \<open>\<^verbatim>\<open>memset(&arm, 0, sizeof arm)\<close> followed by the two assignments of lines 229-230.\<close>
definition arm_power_on :: "emu_h \<Rightarrow> arm_state \<Rightarrow> arm_state" where
  "arm_power_on K a =
     \<lparr>reg = (\<lambda>_. 0), control = 0x00050078, cpsr_low28 = MODE_SVC K OR 0xC0,
      arm_rest = map (\<lambda>_. 0) (arm_rest a)\<rparr>"

text \<open>Lines 152-153 and 234-235: the two assignments to the throttle slot.\<close>
definition set_throttle_slot :: "sched_state \<Rightarrow> sched_state" where
  "set_throttle_slot s =
     s\<lparr>items := (items s)
         (SCHED_THROTTLE :=
            (items s SCHED_THROTTLE)\<lparr>clock := CLOCK_27M, proc := Throttle_interval_event\<rparr>)\<rparr>"

text \<open>
  Lines 225-238, the block under the label \<^verbatim>\<open>reset\<close>. \<^verbatim>\<open>sched_reset\<close> works on the
  scheduler and \<^verbatim>\<open>memory_reset\<close> on the memory subsystem.
\<close>
definition reset_block :: "'p collab \<Rightarrow> emu_h \<Rightarrow> 'p machine \<Rightarrow> 'p machine" where
  "reset_block X K m =
     m\<lparr>hw := memory_reset X (clear_area1 (hw m)),
       arm := arm_power_on K (arm m),
       cpu_events := cpu_events m AND EVENT_DEBUG_STEP K,
       sched := set_throttle_slot (sched_reset X (sched m)),
       trace := trace m @ [Reset_block]\<rparr>"

text \<open>Lines 240-251, up to the checkpoint \<^verbatim>\<open>__builtin_setjmp\<close>.\<close>
definition prologue :: "'p collab \<Rightarrow> 'p machine \<Rightarrow> 'p machine" where
  "prologue X m =
     (let h = flush_translations X (addr_cache_flush X (gdbstub_reset X (hw m)));
          sd = sched_update_next_event X 0 (sched m)
      in m\<lparr>hw := h, sched := fst sd, cycle_count_delta := snd sd, exiting := False\<rparr>)"

text \<open>Lines 264-272: the program counter with which \<^verbatim>\<open>cpu_exception\<close> is entered.\<close>
definition interrupt_pc :: "emu_h \<Rightarrow> 'p machine \<Rightarrow> u32" where
  "interrupt_pc K m =
     (let pc0 = reg (arm m) 15;
          pc1 = (if cpsr_low28 (arm m) AND 0x20 \<noteq> 0 then pc0 AND NOT 1 else pc0 AND NOT 3);
          pc2 = (if cpu_events m AND EVENT_WAITING K \<noteq> 0 then pc1 + 4 else pc1)
      in pc2 + 4)"

definition set_pc :: "u32 \<Rightarrow> 'p machine \<Rightarrow> 'p machine" where
  "set_pc v m = m\<lparr>arm := (arm m)\<lparr>reg := (reg (arm m))(15 := v)\<rparr>\<rparr>"

text \<open>Lines 262-274.\<close>
definition deliver_interrupt :: "'p collab \<Rightarrow> emu_h \<Rightarrow> 'p machine \<Rightarrow> 'p machine outcome" where
  "deliver_interrupt X K m =
     (if cpu_events m AND (EVENT_FIQ K OR EVENT_IRQ K) \<noteq> 0 then
        (let m1 = set_pc (interrupt_pc K m) m;
             v = (if cpu_events m1 AND EVENT_FIQ K \<noteq> 0 then EX_FIQ else EX_IRQ)
         in call_o (Cpu_exception v (reg (arm m1) 15)) (cpu_exception X v) m1)
      else Returned m)"

text \<open>Lines 277-280: one call of the interpreter, in the mode the status register selects.\<close>
definition dispatch :: "'p collab \<Rightarrow> 'p machine \<Rightarrow> 'p machine outcome" where
  "dispatch X m =
     (if cpsr_low28 (arm m) AND 0x20 \<noteq> 0
      then call_o (Dispatch True (cpu_events m)) (cpu_thumb_loop X) m
      else call_o (Dispatch False (cpu_events m)) (cpu_arm_loop X) m)"

text \<open>Lines 262-280, the body of the inner loop below the reset test.\<close>
definition inner_body :: "'p collab \<Rightarrow> emu_h \<Rightarrow> 'p machine \<Rightarrow> 'p machine outcome" where
  "inner_body X K m =
     (case deliver_interrupt X K m of
        Raised m' \<Rightarrow> Raised m'
      | Returned m1 \<Rightarrow>
          dispatch X (m1\<lparr>cpu_events := cpu_events m1 AND NOT (EVENT_WAITING K)\<rparr>))"

text \<open>
  The places where control can be in \<^verbatim>\<open>emu_loop\<close>: at the label \<^verbatim>\<open>reset\<close> (line 225),
  behind the \<^verbatim>\<open>if\<close> (line 240), at the test of the outer \<^verbatim>\<open>while\<close> (line 254), which
  is where \<^verbatim>\<open>__builtin_longjmp\<close> arrives, at the test of the inner \<^verbatim>\<open>while\<close> (line 256),
  and behind the function.
\<close>
datatype label = L_reset | L_prologue | L_outer | L_inner | L_return

fun step :: "'p collab \<Rightarrow> emu_h \<Rightarrow> label \<times> 'p machine \<Rightarrow> label \<times> 'p machine" where
  "step X K (L_reset, m) = (L_prologue, reset_block X K m)"
| "step X K (L_prologue, m) = (L_outer, prologue X m)"
| "step X K (L_outer, m) =
     (if exiting m then (L_return, m)
      else (case call_o Sched_process (sched_process_pending_events X) m of
              Returned m' \<Rightarrow> (L_inner, m')
            | Raised m' \<Rightarrow> (L_outer, error X K m')))"
| "step X K (L_inner, m) =
     (if \<not> exiting m \<and> cycle_count_delta m < 0 then
        (if cpu_events m AND EVENT_RESET K \<noteq> 0 then (L_reset, emit Status_reset m)
         else (case inner_body X K m of
                 Returned m' \<Rightarrow> (L_inner, m')
               | Raised m' \<Rightarrow> (L_outer, error X K m')))
      else (L_outer, m))"
| "step X K (L_return, m) = (L_return, m)"

fun run :: "'p collab \<Rightarrow> emu_h \<Rightarrow> nat \<Rightarrow> label \<times> 'p machine \<Rightarrow> label \<times> 'p machine" where
  "run X K 0 c = c"
| "run X K (Suc n) c = run X K n (step X K c)"

definition emu_loop_entry :: "bool \<Rightarrow> label" where
  "emu_loop_entry reset = (if reset then L_reset else L_prologue)"

text \<open>
  \<^verbatim>\<open>emu_loop(reset)\<close> with a bound on the number of steps: \<open>Some\<close> of the machine with
  which the function returns, \<open>None\<close> when it is still running after \<open>fuel\<close> steps.
\<close>
definition emu_loop :: "'p collab \<Rightarrow> emu_h \<Rightarrow> nat \<Rightarrow> bool \<Rightarrow> 'p machine \<Rightarrow> 'p machine option" where
  "emu_loop X K fuel reset m =
     (case run X K fuel (emu_loop_entry reset, m) of
        (L_return, m') \<Rightarrow> Some m'
      | _ \<Rightarrow> None)"

subsection \<open>\<^verbatim>\<open>throttle_interval_event\<close>\<close>

text \<open>
  Lines 112-122. \<open>now\<close> is the reading of the clock in microseconds. The first call
  initialises \<^verbatim>\<open>prev\<close> with its own reading.
\<close>
definition calc_speed :: "int \<Rightarrow> 'p machine \<Rightarrow> 'p machine" where
  "calc_speed now m =
     (let t = throttle m;
          p = (case prev t of None \<Rightarrow> now | Some p \<Rightarrow> p);
          time = now - p
      in if time \<ge> 500000 then
           (let s = of_int 10000 * of_int (intervals t - prev_intervals t) / of_int time
            in emit (Show_speed s)
                 (m\<lparr>throttle := t\<lparr>speed := s, prev_intervals := intervals t, prev := Some now\<rparr>\<rparr>))
         else m\<lparr>throttle := t\<lparr>prev := Some p\<rparr>\<rparr>)"

text \<open>
  Lines 90-128. \<open>throttle_io\<close> stands for the polling of lines 100-110 (USB link,
  serial input, both debugger stubs).
\<close>
definition throttle_interval_event ::
  "'p collab \<Rightarrow> sched_slot \<Rightarrow> int \<Rightarrow> 'p machine \<Rightarrow> 'p machine" where
  "throttle_interval_event X index now m =
     (let m1 = m\<lparr>sched := event_repeat X index (27000000 div 100) (sched m)\<rparr>;
          m2 = m1\<lparr>throttle := (throttle m1)\<lparr>intervals := intervals (throttle m1) + 1\<rparr>\<rparr>;
          m3 = (throttle_io X m2)\<lparr>throttle := throttle m2, trace := trace m2\<rparr>;
          m4 = calc_speed now m3;
          m5 = m4\<lparr>hw := gui_do_stuff X (hw m4)\<rparr>
      in if \<not> turbo_mode m5 \<and> speed (throttle m5) > 7 / 10
         then m5\<lparr>hw := throttle_timer_wait X (hw m5)\<rparr> else m5)"

subsection \<open>\<^verbatim>\<open>emu_cleanup\<close>\<close>

text \<open>Lines 326-346.\<close>
definition emu_cleanup :: "'p collab \<Rightarrow> 'p machine \<Rightarrow> 'p machine" where
  "emu_cleanup X m =
     (let h1 = close_debugger_input X (hw m);
          h2 = translate_deinit X h1;
          h3 = memory_reset X h2;
          h4 = memory_deinitialize X h3;
          h5 = flash_close X h4;
          h6 = gdbstub_quit X h5;
          h7 = rdebug_quit X h6
      in m\<lparr>exiting := True, hw := h7\<rparr>)"

subsection \<open>\<^verbatim>\<open>emu_start\<close>\<close>

text \<open>The right operand of \<^verbatim>\<open>||\<close> runs only when no failure came before.\<close>
definition and_then :: "bool \<times> 'a \<Rightarrow> ('a \<Rightarrow> bool \<times> 'a) \<Rightarrow> bool \<times> 'a" where
  "and_then r f = (if fst r then f (snd r) else r)"

definition read_settings :: "'p collab \<Rightarrow> 'p machine \<Rightarrow> bool \<times> 'p machine" where
  "read_settings X m = (case flash_read_settings X m of ((ok, sdram_size), m') \<Rightarrow> (ok, m'))"

text \<open>
  Lines 157-163, the condition of the \<^verbatim>\<open>if\<close>, negated: \<open>True\<close> when every test and
  every resume step passed. \<open>f\<close> is the mapped file.
\<close>
definition resume_components ::
  "'p collab \<Rightarrow> emu_h \<Rightarrow> snapshot_file \<Rightarrow> 'p machine \<Rightarrow> bool \<times> 'p machine" where
  "resume_components X K f m =
     (if fsize f < sizeof_emu_snapshot K then (False, m)
      else let m1 = emit Read_sig m
           in if sig (content f) \<noteq> 0xCAFEBEEF then (False, m1)
              else and_then (and_then (and_then (and_then
                     (call_b Flash_resume (flash_resume X (content f)) m1)
                     (call_b Flash_read_settings (read_settings X)))
                     (call_b Cpu_resume (cpu_resume X (content f))))
                     (call_b Memory_resume (memory_resume X (content f))))
                     (call_b Sched_resume (sched_resume X (content f))))"

text \<open>
  Lines 135-171, the start from a snapshot. \<open>fs\<close> is the file system: the file behind
  each path, if there is one.
\<close>
definition resume_snapshot ::
  "'p collab \<Rightarrow> emu_h \<Rightarrow> (cstring \<rightharpoonup> snapshot_file) \<Rightarrow> cstring \<Rightarrow> 'p machine
     \<Rightarrow> bool \<times> 'p machine" where
  "resume_snapshot X K fs path m =
     (case (if os_open_read X path then fs path else None) of
        None \<Rightarrow> (False, m)
      | Some f \<Rightarrow>
          if \<not> os_mmap X path (fsize f) then (False, m)
          else (let m1 = m\<lparr>sched := set_throttle_slot (sched m)\<rparr>
                in case resume_components X K f m1 of
                     (False, m2) \<Rightarrow> (False, emu_cleanup X m2)
                   | (True, m2) \<Rightarrow> (True, m2)))"

text \<open>Lines 172-185, the start from a flash image.\<close>
definition cold_boot :: "'p collab \<Rightarrow> 'p machine \<Rightarrow> bool \<times> 'p machine" where
  "cold_boot X m =
     (case path_flash m of
        None \<Rightarrow> (False, m)
      | Some p \<Rightarrow>
          (case flash_open X p (hw m) of
             (False, h) \<Rightarrow> (False, m\<lparr>hw := h\<rparr>)
           | (True, h) \<Rightarrow>
               (case call_b Flash_read_settings
                       (\<lambda>m. case flash_read_settings X m of (r, m') \<Rightarrow> (snd r, m'))
                       (m\<lparr>hw := h\<rparr>) of
                  (sdram_size, m1) \<Rightarrow>
                    (case memory_initialize X sdram_size
                            (flash_set_bootorder X (boot_order m1) (hw m1)) of
                       (ok, h') \<Rightarrow> (ok, m1\<lparr>hw := h'\<rparr>)))))"

text \<open>
  Lines 187-201. \<^verbatim>\<open>memset\<close> fills the first 512 KiB of area 0, the loop marks each of
  its words read-only, and \<^verbatim>\<open>fread\<close> copies at most 512 KiB of the ROM file over it.
\<close>
definition init_rom :: "emu_h \<Rightarrow> 'p hw_state \<Rightarrow> 'p hw_state" where
  "init_rom K h =
     (let a = mem_areas h 0
      in h\<lparr>mem_areas := (mem_areas h)
            (0 := a\<lparr>ptr := replicate 0x80000 0xFF @ drop 0x80000 (ptr a),
                    ram_flags := replicate 0x20000 (RF_READ_ONLY K)
                                   @ drop 0x20000 (ram_flags a)\<rparr>)\<rparr>)"

definition load_rom :: "byte list \<Rightarrow> 'p hw_state \<Rightarrow> 'p hw_state" where
  "load_rom bytes h =
     (let a = mem_areas h 0; got = take 0x80000 bytes
      in h\<lparr>mem_areas := (mem_areas h) (0 := a\<lparr>ptr := got @ drop (length got) (ptr a)\<rparr>)\<rparr>)"

text \<open>Lines 203-218.\<close>
definition finish_start :: "'p collab \<Rightarrow> nat \<Rightarrow> nat \<Rightarrow> 'p machine \<Rightarrow> bool \<times> 'p machine" where
  "finish_start X port_gdb port_rdbg m =
     (let h1 = addr_cache_init X (translate_init X (hw m));
          h2 = throttle_timer_on X h1;
          h3 = (if port_gdb \<noteq> 0 then gdbstub_init X port_gdb h2 else h2);
          h4 = (if port_rdbg \<noteq> 0 then rdebug_bind X port_rdbg h3 else h3)
      in (True, m\<lparr>hw := h4\<rparr>))"

definition start_rom :: "'p collab \<Rightarrow> emu_h \<Rightarrow> nat \<Rightarrow> nat \<Rightarrow> 'p machine \<Rightarrow> bool \<times> 'p machine" where
  "start_rom X K port_gdb port_rdbg m =
     (let m1 = m\<lparr>hw := init_rom K (hw m)\<rparr>
      in case path_boot1 m1 of
           None \<Rightarrow> finish_start X port_gdb port_rdbg m1
         | Some p \<Rightarrow>
             (case os_fopen_read X p of
                None \<Rightarrow> (False, emit (Perror p) m1)
              | Some bytes \<Rightarrow>
                  finish_start X port_gdb port_rdbg (m1\<lparr>hw := load_rom bytes (hw m1)\<rparr>)))"

text \<open>Lines 130-219. \<open>snapshot_file\<close> is \<open>None\<close> for the null pointer.\<close>
definition emu_start ::
  "'p collab \<Rightarrow> emu_h \<Rightarrow> (cstring \<rightharpoonup> snapshot_file) \<Rightarrow> nat \<Rightarrow> nat \<Rightarrow> cstring option
     \<Rightarrow> 'p machine \<Rightarrow> bool \<times> 'p machine" where
  "emu_start X K fs port_gdb port_rdbg snapshot_file m =
     (let m0 = (if debug_on_start m
                then m\<lparr>cpu_events := cpu_events m OR EVENT_DEBUG_STEP K\<rparr> else m);
          r = (case snapshot_file of
                 Some path \<Rightarrow> resume_snapshot X K fs path m0
               | None \<Rightarrow> cold_boot X m0)
      in if fst r then start_rom X K port_gdb port_rdbg (snd r) else r)"

subsection \<open>\<^verbatim>\<open>emu_suspend\<close>\<close>

text \<open>
  \<^verbatim>\<open>strncpy(dst, src, n)\<close>: the first \<open>n\<close> bytes of \<open>dst\<close> become the string, cut
  at \<open>n\<close> bytes or padded with NUL up to \<open>n\<close>; the bytes of \<open>dst\<close> from \<open>n\<close> on stay.
\<close>
definition strncpy :: "byte list \<Rightarrow> cstring \<Rightarrow> nat \<Rightarrow> byte list" where
  "strncpy dst src n = take n (src @ replicate n 0) @ drop n dst"

text \<open>A char array holds a string when one of its bytes is NUL.\<close>
definition null_terminated :: "byte list \<Rightarrow> bool" where
  "null_terminated field = (0 \<in> set field)"

text \<open>
  How a call of \<^verbatim>\<open>emu_suspend\<close> ends: it returns a value, or it stores through a pointer
  that is null or no longer mapped, which the C++ standard leaves undefined and the
  operating system answers with a signal.
\<close>
datatype suspend_result = Return bool | Invalid_access

text \<open>The struct as it reads from a file just created: every byte zero.\<close>
definition zero_snapshot :: "emu_h \<Rightarrow> emu_snapshot" where
  "zero_snapshot K =
     \<lparr>sig = 0, snap_product = 0, snap_asic_user_flags = 0,
      snap_path_boot1 = replicate (sizeof_path_boot1 K) 0,
      snap_path_flash = replicate (sizeof_path_flash K) 0,
      regions = (\<lambda>_. 0)\<rparr>"

text \<open>Lines 310-313: the four steps, each run only when the ones before it succeeded.\<close>
definition suspend_components ::
  "'p collab \<Rightarrow> 'p machine \<Rightarrow> emu_snapshot \<Rightarrow> bool \<times> emu_snapshot" where
  "suspend_components X m s =
     and_then (and_then (and_then (flash_suspend X m s)
       (cpu_suspend X m)) (sched_suspend X m)) (memory_suspend X m)"

text \<open>
  Lines 285-324. \<^verbatim>\<open>open\<close> has \<^verbatim>\<open>O_CREAT\<close> and no \<^verbatim>\<open>O_TRUNC\<close>: a file that exists keeps
  its bytes, and \<^verbatim>\<open>ftruncate\<close> only sets its length. The mapping is shared, so every store
  into the struct is a store into the file. The branch of lines 314-317 unmaps and closes
  and has no \<^verbatim>\<open>return\<close>: the store of line 319 then goes through the unmapped pointer.
\<close>
definition emu_suspend ::
  "'p collab \<Rightarrow> emu_h \<Rightarrow> cstring \<Rightarrow> (cstring \<rightharpoonup> snapshot_file) \<Rightarrow> 'p machine
     \<Rightarrow> suspend_result \<times> (cstring \<rightharpoonup> snapshot_file)" where
  "emu_suspend X K file fs m =
     (if \<not> os_open_create X file then (Return False, fs)
      else
        let f0 = (case fs file of
                    None \<Rightarrow> \<lparr>fsize = 0, content = zero_snapshot K\<rparr>
                  | Some f \<Rightarrow> f);
            sz = sizeof_emu_snapshot K + flash_suspend_flexsize X m
        in if \<not> os_ftruncate X file sz then (Return False, fs(file \<mapsto> f0))
           else
             let f1 = f0\<lparr>fsize := sz\<rparr>
             in if \<not> os_mmap X file sz then (Return False, fs(file \<mapsto> f1))
                else
                  let s1 = (content f1)\<lparr>snap_product := product_id m,
                                        snap_asic_user_flags := asic_user_flags m\<rparr>
                  in (case path_boot1 m of
                        None \<Rightarrow> (Invalid_access, fs(file \<mapsto> f1\<lparr>content := s1\<rparr>))
                      | Some b1 \<Rightarrow>
                          let s2 = s1\<lparr>snap_path_boot1 :=
                                       strncpy (snap_path_boot1 s1) b1 (sizeof_path_boot1 K - 1)\<rparr>
                          in (case path_flash m of
                                None \<Rightarrow> (Invalid_access, fs(file \<mapsto> f1\<lparr>content := s2\<rparr>))
                              | Some fl \<Rightarrow>
                                  let s3 = s2\<lparr>snap_path_flash :=
                                             strncpy (snap_path_flash s2) fl (sizeof_path_flash K - 1)\<rparr>;
                                      r = suspend_components X m s3
                                  in if \<not> fst r
                                     then (Invalid_access, fs(file \<mapsto> f1\<lparr>content := snd r\<rparr>))
                                     else (Return True,
                                           fs(file \<mapsto> f1\<lparr>content := (snd r)\<lparr>sig := 0xCAFEBEEF\<rparr>\<rparr>)))))"

subsection \<open>Properties of runs\<close>



subsection \<open>A concrete configuration\<close>

text \<open>
  One assignment of values to the macros: five distinct event bits, the ARM encoding of
  supervisor mode, and two path fields of 512 bytes in a header of 2048 bytes.
\<close>
definition sample_h :: emu_h where
  "sample_h =
     \<lparr>EVENT_IRQ = 1, EVENT_FIQ = 2, EVENT_RESET = 4, EVENT_DEBUG_STEP = 8, EVENT_WAITING = 16,
      MODE_SVC = 0x13, RF_READ_ONLY = 1,
      sizeof_emu_snapshot = 2048, sizeof_path_boot1 = 512, sizeof_path_flash = 512\<rparr>"

definition sample_item :: sched_item where
  "sample_item = \<lparr>clock = CLOCK_other 0, proc = NULL_proc, item_rest = []\<rparr>"

definition sample_area :: mem_area where
  "sample_area = \<lparr>ptr = [1, 2, 3, 4], area_size = 4, ram_flags = [0]\<rparr>"

text \<open>
  Collaborators that do as little as their interfaces allow: the interpreter uses up one
  cycle per call, the scheduler grants a budget of two cycles, every operation of the
  operating system and every sub-region step succeeds, and there is no ROM file.
\<close>
definition sample_collab :: "unit collab" where
  "sample_collab =
     \<lparr>sched_reset = (\<lambda>s. \<lparr>items = (\<lambda>_. sample_item), sched_rest = []\<rparr>),
      sched_update_next_event = (\<lambda>t s. (s, - 2)),
      sched_process_pending_events = (\<lambda>m. Returned (m\<lparr>cycle_count_delta := - 2\<rparr>)),
      memory_reset = (\<lambda>h. h),
      memory_deinitialize = (\<lambda>h. h\<lparr>mem_areas := (\<lambda>_. \<lparr>ptr = [], area_size = 0, ram_flags = []\<rparr>)\<rparr>),
      memory_initialize = (\<lambda>n h. (True, h)),
      gdbstub_reset = (\<lambda>h. h),
      addr_cache_flush = (\<lambda>h. h),
      flush_translations = (\<lambda>h. h),
      cpu_exception = (\<lambda>v m. Returned m),
      cpu_arm_loop = (\<lambda>m. Returned (m\<lparr>cycle_count_delta := cycle_count_delta m + 1\<rparr>)),
      cpu_thumb_loop = (\<lambda>m. Returned (m\<lparr>cycle_count_delta := cycle_count_delta m + 1\<rparr>)),
      debugger = (\<lambda>m. m),
      close_debugger_input = (\<lambda>h. h),
      translate_init = (\<lambda>h. h),
      translate_deinit = (\<lambda>h. h),
      addr_cache_init = (\<lambda>h. h),
      throttle_timer_on = (\<lambda>h. h),
      throttle_timer_wait = (\<lambda>h. h),
      gdbstub_init = (\<lambda>n h. h),
      rdebug_bind = (\<lambda>n h. h),
      gdbstub_quit = (\<lambda>h. h),
      rdebug_quit = (\<lambda>h. h),
      throttle_io = (\<lambda>m. m),
      gui_do_stuff = (\<lambda>h. h),
      event_repeat = (\<lambda>i n s. s),
      flash_open = (\<lambda>p h. (True, h)),
      flash_close = (\<lambda>h. h),
      flash_set_bootorder = (\<lambda>n h. h),
      flash_read_settings = (\<lambda>m. ((True, 0x2000000), m)),
      flash_resume = (\<lambda>s m. (True, m)),
      cpu_resume = (\<lambda>s m. (True, m)),
      memory_resume = (\<lambda>s m. (True, m)),
      sched_resume = (\<lambda>s m. (True, m)),
      flash_suspend_flexsize = (\<lambda>m. 16),
      flash_suspend = (\<lambda>m s. (True, s)),
      cpu_suspend = (\<lambda>m s. (True, s)),
      sched_suspend = (\<lambda>m s. (True, s)),
      memory_suspend = (\<lambda>m s. (True, s)),
      os_open_read = (\<lambda>p. True),
      os_open_create = (\<lambda>p. True),
      os_ftruncate = (\<lambda>p n. True),
      os_mmap = (\<lambda>p n. True),
      os_fopen_read = (\<lambda>p. None)\<rparr>"

text \<open>
  A machine in ARM supervisor mode with a budget of five cycles; the configuration
  variables have the initial values of lines 19-32, and the two paths are set.
\<close>
definition sample_machine :: "unit machine" where
  "sample_machine =
     \<lparr>arm = \<lparr>reg = (\<lambda>_. 0)(15 := 0x10000123), control = 0x50078, cpsr_low28 = 0x13,
             arm_rest = []\<rparr>,
      cpu_events = 0,
      cycle_count_delta = - 5,
      exiting = False,
      sched = \<lparr>items = (\<lambda>_. sample_item), sched_rest = []\<rparr>,
      hw = \<lparr>mem_areas = (\<lambda>_. sample_area), priv = ()\<rparr>,
      product_id = 0x0E0,
      asic_user_flags = 0,
      turbo_mode = False,
      debug_on_start = False,
      boot_order = 0,
      path_boot1 = Some [0x62, 0x31],
      path_flash = Some [0x66, 0x6C],
      throttle = \<lparr>intervals = 0, prev_intervals = 0, prev = None, speed = 1\<rparr>,
      trace = []\<rparr>"

text \<open>The path of the snapshot file in the examples: \<^verbatim>\<open>s\<close>.\<close>
definition sample_path :: cstring where
  "sample_path = [0x73]"


text \<open>Byte \<open>i\<close> of a 32-bit word changed by the non-zero pattern \<open>d\<close>.\<close>
definition corrupt_byte :: "nat \<Rightarrow> byte \<Rightarrow> u32 \<Rightarrow> u32" where
  "corrupt_byte i d w = w XOR push_bit (8 * i) (ucast d)"

text \<open>A snapshot that an earlier, successful \<^verbatim>\<open>emu_suspend\<close> left behind.\<close>
definition sample_old_file :: snapshot_file where
  "sample_old_file =
     \<lparr>fsize = 2064,
      content = \<lparr>sig = 0xCAFEBEEF, snap_product = 0x0E0, snap_asic_user_flags = 0,
                 snap_path_boot1 = [0x62, 0x31] @ replicate 510 0,
                 snap_path_flash = [0x66, 0x6C] @ replicate 510 0,
                 regions = (\<lambda>_. 0)\<rparr>\<rparr>"

text \<open>The same file with the lowest byte of the signature changed.\<close>
definition sample_corrupt_file :: snapshot_file where
  "sample_corrupt_file =
     sample_old_file\<lparr>content := (content sample_old_file)\<lparr>sig := corrupt_byte 0 1 0xCAFEBEEF\<rparr>\<rparr>"

text \<open>The same file cut to 100 bytes.\<close>
definition sample_short_file :: snapshot_file where
  "sample_short_file = sample_old_file\<lparr>fsize := 100\<rparr>"

text \<open>A file of 4096 bytes that is no snapshot: every byte is \<^verbatim>\<open>0xFF\<close>.\<close>
definition sample_foreign_file :: snapshot_file where
  "sample_foreign_file =
     \<lparr>fsize = 4096,
      content = \<lparr>sig = 0xFFFFFFFF, snap_product = 0xFFFFFFFF, snap_asic_user_flags = 0xFFFFFFFF,
                 snap_path_boot1 = replicate 512 0xFF,
                 snap_path_flash = replicate 512 0xFF,
                 regions = (\<lambda>_. 0xFF)\<rparr>\<rparr>"

definition fs_with :: "snapshot_file \<Rightarrow> (cstring \<rightharpoonup> snapshot_file)" where
  "fs_with f = [sample_path \<mapsto> f]"

definition no_files :: "cstring \<rightharpoonup> snapshot_file" where
  "no_files = Map.empty"

text \<open>A boot ROM path of 600 bytes: 75 times \<^verbatim>\<open>/abcdefg\<close>.\<close>
definition long_path :: cstring where
  "long_path = concat (replicate 75 [0x2F, 0x61, 0x62, 0x63, 0x64, 0x65, 0x66, 0x67])"

definition long_path_machine :: "unit machine" where
  "long_path_machine = sample_machine\<lparr>path_boot1 := Some long_path\<rparr>"

text \<open>The sample collaborators, except that \<^verbatim>\<open>flash_suspend\<close> reports a failure.\<close>
definition failing_flash_collab :: "unit collab" where
  "failing_flash_collab = sample_collab\<lparr>flash_suspend := (\<lambda>m s. (False, s))\<rparr>"


text \<open>The sample machine with the front end's exit request already made.\<close>
definition exit_requested_machine :: "unit machine" where
  "exit_requested_machine = sample_machine\<lparr>exiting := True\<rparr>"

text \<open>The sample machine started with \<^verbatim>\<open>debug_on_start\<close>.\<close>
definition debug_start_machine :: "unit machine" where
  "debug_start_machine = sample_machine\<lparr>debug_on_start := True\<rparr>"

text \<open>The sample machine with every event bit pending.\<close>
definition all_events_machine :: "unit machine" where
  "all_events_machine = sample_machine\<lparr>cpu_events := 0x1F\<rparr>"



section \<open>Auxiliary facts\<close>

lemma run_2: "run X K 2 c = step X K (step X K c)"
  by (simp add: numeral_2_eq_2)

lemma run_return: "run X K n (L_return, m) = (L_return, m)"
  by (induction n) simp_all

lemma reset_block_events:
  "cpu_events (reset_block X K m) = cpu_events m AND EVENT_DEBUG_STEP K"
  by (simp add: reset_block_def)

lemma and_disjoint_mask:
  fixes d :: u32
  assumes "d AND (a OR b OR c OR e) = 0"
  shows "(x AND d) AND (a OR b OR c OR e) = 0"
  using assms by (simp add: and.assoc)


lemma xor_same_iff: "w XOR y = w \<longleftrightarrow> y = (0 :: u32)"
proof
  assume "w XOR y = w"
  then have "w XOR (w XOR y) = w XOR w" by simp
  then show "y = 0" by (simp add: xor.assoc [symmetric])
qed simp

lemma push_byte_nonzero:
  fixes d :: byte
  assumes "i < 4" and "d \<noteq> 0"
  shows "push_bit (8 * i) (ucast d :: u32) \<noteq> 0"
proof -
  from \<open>d \<noteq> 0\<close> obtain n where n: "bit d n"
    by (auto simp: bit_eq_iff)
  then have "n < 8" by (auto dest: bit_imp_le_length)
  with n \<open>i < 4\<close> have b: "bit (push_bit (8 * i) (ucast d :: u32)) (8 * i + n)"
    by (simp add: bit_simps)
  show ?thesis
  proof
    assume "push_bit (8 * i) (ucast d :: u32) = 0"
    with b show False by simp
  qed
qed

text \<open>Changing any one of the four bytes of the signature gives another signature.\<close>
lemma corrupt_byte_differs: "i < 4 \<Longrightarrow> d \<noteq> 0 \<Longrightarrow> corrupt_byte i d w \<noteq> w"
  using push_byte_nonzero [of i d] by (simp add: corrupt_byte_def xor_same_iff)

subsection \<open>What a step adds to the record of events\<close>










subsection \<open>A pending reset stays pending until the reset block runs\<close>





subsection \<open>Copying a path into its field\<close>

lemma strncpy_length: "n \<le> length dst \<Longrightarrow> length (strncpy dst src n) = length dst"
  by (simp add: strncpy_def)

text \<open>A string shorter than the count is padded, so the field is terminated.\<close>
lemma strncpy_short_terminated:
  "length src < n \<Longrightarrow> null_terminated (strncpy dst src n)"
  by (simp add: strncpy_def null_terminated_def)

text \<open>
  A string that fills the count leaves no NUL of its own: the field is terminated only if
  the bytes that were behind the count before contain one.
\<close>
lemma strncpy_long_terminated:
  assumes "0 \<notin> set src" and "n \<le> length src"
  shows "null_terminated (strncpy dst src n) \<longleftrightarrow> 0 \<in> set (drop n dst)"
proof -
  from assms(2) have "take n (src @ replicate n 0) = take n src" by simp
  moreover from assms(1) have "0 \<notin> set (take n src)" by (auto dest: in_set_takeD)
  ultimately show ?thesis by (simp add: strncpy_def null_terminated_def)
qed

lemma long_path_length: "length long_path = 600"
  by (simp add: long_path_def length_concat sum_list_replicate)

lemma long_path_no_nul: "0 \<notin> set long_path"
  by (simp add: long_path_def)

subsection \<open>Rejected snapshots\<close>

lemma resume_components_bad:
  assumes "fsize f < sizeof_emu_snapshot K \<or> sig (content f) \<noteq> 0xCAFEBEEF"
  shows "resume_components X K f m =
           (False, if fsize f < sizeof_emu_snapshot K then m else emit Read_sig m)"
  using assms by (auto simp: resume_components_def Let_def)

section \<open>The claims\<close>

subsection \<open>Suspend\<close>

text \<open>
  C1. When a sub-region step of \<^verbatim>\<open>emu_suspend\<close> fails, the function is to return false
  and the file is to carry no valid signature. The failure branch of lines 314-317 unmaps
  the file and closes it, and then control runs on into line 319. With \<^verbatim>\<open>flash_suspend\<close>
  failing, the call does not return false: it ends in the store through the unmapped
  pointer, whether the file is new or not. When the file was a valid snapshot before, it
  still carries \<^verbatim>\<open>0xCAFEBEEF\<close> afterwards.
\<close>
theorem suspend_failure_not_reported:
  "fst (emu_suspend failing_flash_collab sample_h sample_path no_files sample_machine)
     = Invalid_access
   \<and> fst (emu_suspend failing_flash_collab sample_h sample_path (fs_with sample_old_file)
          sample_machine) = Invalid_access
   \<and> Invalid_access \<noteq> Return False
   \<and> map_option (sig \<circ> content)
        (snd (emu_suspend failing_flash_collab sample_h sample_path (fs_with sample_old_file)
                sample_machine) sample_path) = Some 0xCAFEBEEF"
  by (simp add: emu_suspend_def failing_flash_collab_def sample_collab_def sample_h_def
        fs_with_def no_files_def sample_old_file_def sample_machine_def Let_def
        suspend_components_def and_then_def)

text \<open>
  C9. The two path fields of the header are to be null-terminated after every suspend.
  \<^verbatim>\<open>strncpy\<close> writes all bytes of a field but the last one and relies on that byte being
  zero already, which holds for a file that \<^verbatim>\<open>open\<close> has just created. Suspending onto a
  file of 4096 bytes \<^verbatim>\<open>0xFF\<close> with a boot ROM path of 600 bytes succeeds, and the field
  then holds 511 bytes of the path followed by \<^verbatim>\<open>0xFF\<close>: no byte of it is NUL.
\<close>
theorem suspend_path_not_terminated:
  "fst (emu_suspend sample_collab sample_h sample_path (fs_with sample_foreign_file)
          long_path_machine) = Return True
   \<and> map_option (length \<circ> snap_path_boot1 \<circ> content)
        (snd (emu_suspend sample_collab sample_h sample_path (fs_with sample_foreign_file)
                long_path_machine) sample_path) = Some 512
   \<and> map_option (null_terminated \<circ> snap_path_boot1 \<circ> content)
        (snd (emu_suspend sample_collab sample_h sample_path (fs_with sample_foreign_file)
                long_path_machine) sample_path) = Some False"
  by (simp add: emu_suspend_def sample_collab_def sample_h_def
        fs_with_def sample_foreign_file_def long_path_machine_def sample_machine_def Let_def
        suspend_components_def and_then_def strncpy_length strncpy_long_terminated
        long_path_length long_path_no_nul)

subsection \<open>Resume\<close>

text \<open>
  C2. \<^verbatim>\<open>emu_start\<close> with a snapshot path fails whenever the file (if there is one) is
  shorter than the header or its signature is not \<^verbatim>\<open>0xCAFEBEEF\<close>. When the file is shorter
  than the header, the signature is not read and no resume step of flash, settings, CPU,
  memory or scheduler is called: the failed start records no event at all.
\<close>
theorem emu_start_rejects_bad_snapshot:
  "((\<forall>f. fs path = Some f \<longrightarrow>
        fsize f < sizeof_emu_snapshot K \<or> sig (content f) \<noteq> 0xCAFEBEEF) \<longrightarrow>
      \<not> fst (emu_start X K fs port_gdb port_rdbg (Some path) m))
   \<and> ((\<forall>f. fs path = Some f \<longrightarrow> fsize f < sizeof_emu_snapshot K) \<longrightarrow>
        trace (snd (emu_start X K fs port_gdb port_rdbg (Some path) m)) = trace m)"
proof (cases "fs path")
  case None
  then show ?thesis
    by (simp add: emu_start_def resume_snapshot_def)
next
  case (Some f)
  then show ?thesis
    by (auto simp: emu_start_def resume_snapshot_def Let_def resume_components_bad
          emu_cleanup_def)
qed

theorem emu_start_rejects_bad_snapshot_witness:
  "fs_with sample_short_file sample_path = Some sample_short_file
   \<and> fsize sample_short_file < sizeof_emu_snapshot sample_h
   \<and> sig (content sample_short_file) = 0xCAFEBEEF
   \<and> \<not> fst (emu_start sample_collab sample_h (fs_with sample_short_file) 0 0
              (Some sample_path) sample_machine)
   \<and> trace (snd (emu_start sample_collab sample_h (fs_with sample_short_file) 0 0
                   (Some sample_path) sample_machine)) = []"
  using emu_start_rejects_bad_snapshot
          [of "fs_with sample_short_file" sample_path sample_h
              sample_collab 0 0 sample_machine]
  by (simp add: fs_with_def sample_short_file_def sample_old_file_def sample_h_def
        sample_machine_def)

text \<open>
  C3, as stated: a start from a snapshot with a corrupted signature fails and leaves the
  pending events, the scheduler slots, memory and storage as they were. It fails, but it
  does not leave them: with \<^verbatim>\<open>debug_on_start\<close> set, \<^verbatim>\<open>EVENT_DEBUG_STEP\<close> is pending
  afterwards (line 133), the throttle slot has its clock and callback (lines 152-153), and
  \<^verbatim>\<open>emu_cleanup\<close> has set \<^verbatim>\<open>exiting\<close>.
\<close>
theorem corrupt_snapshot_start_changes_state:
  "sig (content sample_corrupt_file) = 0xCAFEBEEE
   \<and> \<not> fst (emu_start sample_collab sample_h (fs_with sample_corrupt_file) 0 0
              (Some sample_path) debug_start_machine)
   \<and> cpu_events debug_start_machine = 0
   \<and> cpu_events (snd (emu_start sample_collab sample_h (fs_with sample_corrupt_file) 0 0
                        (Some sample_path) debug_start_machine)) = 8
   \<and> proc (items (sched debug_start_machine) SCHED_THROTTLE) = NULL_proc
   \<and> proc (items (sched (snd (emu_start sample_collab sample_h (fs_with sample_corrupt_file)
                                 0 0 (Some sample_path) debug_start_machine))) SCHED_THROTTLE)
        = Throttle_interval_event
   \<and> \<not> exiting debug_start_machine
   \<and> exiting (snd (emu_start sample_collab sample_h (fs_with sample_corrupt_file) 0 0
                     (Some sample_path) debug_start_machine))"
  by (simp add: emu_start_def resume_snapshot_def resume_components_def emu_cleanup_def
        set_throttle_slot_def emit_def Let_def corrupt_byte_def
        fs_with_def sample_corrupt_file_def sample_old_file_def sample_h_def
        debug_start_machine_def sample_machine_def sample_collab_def sample_item_def)

text \<open>
  C3, amended: a start from a snapshot whose signature is not \<^verbatim>\<open>0xCAFEBEEF\<close> fails, calls
  no resume step (the only event it can add is the read of the signature) and leaves the
  CPU registers as they were. The pending events gain \<^verbatim>\<open>EVENT_DEBUG_STEP\<close> exactly when
  \<^verbatim>\<open>debug_on_start\<close> is set. When the file could be opened and mapped, the throttle slot
  has been given its clock and callback, \<^verbatim>\<open>exiting\<close> is set, and the collaborators are in
  the state in which \<^verbatim>\<open>emu_cleanup\<close> leaves them; otherwise scheduler, \<^verbatim>\<open>exiting\<close> and
  collaborators are unchanged.
\<close>
theorem corrupt_snapshot_start_fails:
  assumes "fs path = Some f" and "sig (content f) \<noteq> 0xCAFEBEEF"
  shows "\<not> fst (emu_start X K fs port_gdb port_rdbg (Some path) m)
    \<and> (\<forall>e \<in> set (trace (snd (emu_start X K fs port_gdb port_rdbg (Some path) m))).
          e \<in> set (trace m) \<or> e = Read_sig)
    \<and> arm (snd (emu_start X K fs port_gdb port_rdbg (Some path) m)) = arm m
    \<and> cpu_events (snd (emu_start X K fs port_gdb port_rdbg (Some path) m))
        = (if debug_on_start m then cpu_events m OR EVENT_DEBUG_STEP K else cpu_events m)
    \<and> (os_open_read X path \<and> os_mmap X path (fsize f) \<longrightarrow>
         exiting (snd (emu_start X K fs port_gdb port_rdbg (Some path) m))
         \<and> sched (snd (emu_start X K fs port_gdb port_rdbg (Some path) m))
             = set_throttle_slot (sched m)
         \<and> hw (snd (emu_start X K fs port_gdb port_rdbg (Some path) m))
             = hw (emu_cleanup X m))
    \<and> (\<not> (os_open_read X path \<and> os_mmap X path (fsize f)) \<longrightarrow>
         exiting (snd (emu_start X K fs port_gdb port_rdbg (Some path) m)) = exiting m
         \<and> sched (snd (emu_start X K fs port_gdb port_rdbg (Some path) m)) = sched m
         \<and> hw (snd (emu_start X K fs port_gdb port_rdbg (Some path) m)) = hw m)"
  using assms
  by (auto simp: emu_start_def resume_snapshot_def Let_def resume_components_bad emu_cleanup_def
        emit_def)

theorem corrupt_snapshot_start_fails_witness:
  "fs_with sample_corrupt_file sample_path = Some sample_corrupt_file
   \<and> sig (content sample_corrupt_file) \<noteq> 0xCAFEBEEF
   \<and> \<not> fst (emu_start sample_collab sample_h (fs_with sample_corrupt_file) 0 0
              (Some sample_path) sample_machine)
   \<and> arm (snd (emu_start sample_collab sample_h (fs_with sample_corrupt_file) 0 0
                 (Some sample_path) sample_machine)) = arm sample_machine
   \<and> cpu_events (snd (emu_start sample_collab sample_h (fs_with sample_corrupt_file) 0 0
                        (Some sample_path) sample_machine)) = 0"
proof -
  have f: "fs_with sample_corrupt_file sample_path = Some sample_corrupt_file"
    by (simp add: fs_with_def)
  have s: "sig (content sample_corrupt_file) \<noteq> 0xCAFEBEEF"
    by (simp add: sample_corrupt_file_def corrupt_byte_differs)
  from f s corrupt_snapshot_start_fails
         [of "fs_with sample_corrupt_file" sample_path sample_corrupt_file
             sample_collab sample_h 0 0 sample_machine]
  show ?thesis by (simp add: sample_machine_def)
qed

subsection \<open>Reset\<close>

text \<open>
  C4. A reset of the execution loop is one pass through the block at the label
  \<^verbatim>\<open>reset\<close>, entered from the top of \<^verbatim>\<open>emu_loop(true)\<close> or from the inner loop when
  \<^verbatim>\<open>EVENT_RESET\<close> is pending. Provided the single-step bit is none of the FIQ, IRQ, waiting
  and reset bits, the block leaves none of these four pending, the program counter 0, the
  control register \<^verbatim>\<open>0x00050078\<close>, the status register \<^verbatim>\<open>MODE_SVC | 0xC0\<close>, and the throttle
  slot with its clock and its callback. (\<^verbatim>\<open>sched_reset\<close> runs before the slot is assigned;
  \<^verbatim>\<open>memory_reset\<close>, which runs after it, is confined to the memory subsystem.)
\<close>
theorem reset_reaches_power_on_state:
  assumes "EVENT_DEBUG_STEP K AND (EVENT_FIQ K OR EVENT_IRQ K OR EVENT_WAITING K OR EVENT_RESET K) = 0"
  shows "fst (step X K (L_reset, m)) = L_prologue
    \<and> cpu_events (snd (step X K (L_reset, m)))
         AND (EVENT_FIQ K OR EVENT_IRQ K OR EVENT_WAITING K OR EVENT_RESET K) = 0
    \<and> reg (arm (snd (step X K (L_reset, m)))) 15 = 0
    \<and> control (arm (snd (step X K (L_reset, m)))) = 0x00050078
    \<and> cpsr_low28 (arm (snd (step X K (L_reset, m)))) = MODE_SVC K OR 0xC0
    \<and> clock (items (sched (snd (step X K (L_reset, m)))) SCHED_THROTTLE) = CLOCK_27M
    \<and> proc (items (sched (snd (step X K (L_reset, m)))) SCHED_THROTTLE) = Throttle_interval_event
    \<and> emu_loop_entry True = L_reset
    \<and> (\<not> exiting m \<and> cycle_count_delta m < 0 \<and> cpu_events m AND EVENT_RESET K \<noteq> 0 \<longrightarrow>
          fst (step X K (L_inner, m)) = L_reset)"
  using and_disjoint_mask [OF assms]
  by (simp add: reset_block_def arm_power_on_def set_throttle_slot_def emu_loop_entry_def)

theorem reset_reaches_power_on_state_witness:
  "EVENT_DEBUG_STEP sample_h
     AND (EVENT_FIQ sample_h OR EVENT_IRQ sample_h OR EVENT_WAITING sample_h OR EVENT_RESET sample_h) = 0
   \<and> \<not> exiting all_events_machine \<and> cycle_count_delta all_events_machine < 0
   \<and> cpu_events all_events_machine AND EVENT_RESET sample_h \<noteq> 0
   \<and> fst (step sample_collab sample_h (L_inner, all_events_machine)) = L_reset
   \<and> cpu_events (snd (step sample_collab sample_h (L_reset, all_events_machine))) AND 0x17 = 0
   \<and> reg (arm (snd (step sample_collab sample_h (L_reset, all_events_machine)))) 15 = 0
   \<and> control (arm (snd (step sample_collab sample_h (L_reset, all_events_machine)))) = 0x50078
   \<and> cpsr_low28 (arm (snd (step sample_collab sample_h (L_reset, all_events_machine)))) = 0xD3"
  using reset_reaches_power_on_state [of sample_h sample_collab all_events_machine]
  by (simp add: sample_h_def all_events_machine_def sample_machine_def)

text \<open>
  C10. The reset block keeps exactly the single-step bit of the pending events: every
  other bit is clear afterwards, and \<^verbatim>\<open>EVENT_DEBUG_STEP\<close> is as it was before, on both ways
  into the block (the status message of the second way does not touch the events, and
  neither do \<^verbatim>\<open>sched_reset\<close> and \<^verbatim>\<open>memory_reset\<close>, confined to their subsystems).
\<close>
theorem reset_keeps_only_debug_step:
  "fst (step X K (L_reset, m)) = L_prologue
   \<and> cpu_events (snd (step X K (L_reset, m))) AND NOT (EVENT_DEBUG_STEP K) = 0
   \<and> cpu_events (snd (step X K (L_reset, m))) AND EVENT_DEBUG_STEP K
       = cpu_events m AND EVENT_DEBUG_STEP K
   \<and> emu_loop_entry True = L_reset
   \<and> (\<not> exiting m \<and> cycle_count_delta m < 0 \<and> cpu_events m AND EVENT_RESET K \<noteq> 0 \<longrightarrow>
        fst (step X K (L_inner, m)) = L_reset
        \<and> cpu_events (snd (step X K (L_inner, m))) = cpu_events m)"
  by (simp add: reset_block_events emu_loop_entry_def emit_def and.assoc)

theorem reset_keeps_only_debug_step_witness:
  "\<not> exiting all_events_machine \<and> cycle_count_delta all_events_machine < 0
   \<and> cpu_events all_events_machine AND EVENT_RESET sample_h \<noteq> 0
   \<and> fst (step sample_collab sample_h (L_inner, all_events_machine)) = L_reset
   \<and> cpu_events (snd (step sample_collab sample_h (L_inner, all_events_machine))) = 0x1F
   \<and> cpu_events (snd (step sample_collab sample_h (L_reset, all_events_machine))) = 8"
  using reset_keeps_only_debug_step [of sample_collab sample_h all_events_machine]
  by (simp add: sample_h_def all_events_machine_def sample_machine_def reset_block_def emit_def)

subsection \<open>The inner loop\<close>



subsection \<open>Faults\<close>



subsection \<open>Exit requests\<close>

text \<open>
  C7, as stated: every setting of the exiting flag ends the loop at the next poll point,
  also one made after start and before run enters the loop. Line 247 assigns
  \<^verbatim>\<open>exiting = false\<close> on the way into the loop: with the flag set before \<^verbatim>\<open>emu_loop(false)\<close>,
  the first test of the outer loop does not end the loop, the interpreter is called, and
  three steps on the function has not returned.
\<close>
theorem exit_request_before_loop_lost:
  "exiting exit_requested_machine
   \<and> fst (step sample_collab sample_h (emu_loop_entry False, exit_requested_machine)) = L_outer
   \<and> \<not> exiting (snd (step sample_collab sample_h (emu_loop_entry False, exit_requested_machine)))
   \<and> fst (run sample_collab sample_h 2 (emu_loop_entry False, exit_requested_machine)) = L_inner
   \<and> trace (snd (step sample_collab sample_h
        (run sample_collab sample_h 2 (emu_loop_entry False, exit_requested_machine))))
       = [Sched_process, Dispatch False 0]
   \<and> emu_loop sample_collab sample_h 2 False exit_requested_machine = None"
  by (simp add: run_2 emu_loop_def emu_loop_entry_def prologue_def call_o_def inner_body_def
        deliver_interrupt_def dispatch_def Let_def
        exit_requested_machine_def sample_machine_def sample_collab_def sample_h_def)

text \<open>
  C7, amended: a setting of the exiting flag that is in place at a poll point ends the
  loop there: at the test of the outer loop the function returns in one step, at the test
  of the inner loop in two, with the machine as it was and without a further call. A
  setting made before the loop is entered, or before the loop passes line 247 again after
  a reset, is overwritten there and has no effect.
\<close>
theorem exit_request_ends_loop:
  "(exiting m \<longrightarrow>
      run X K (Suc n) (L_outer, m) = (L_return, m)
      \<and> run X K (Suc (Suc n)) (L_inner, m) = (L_return, m)
      \<and> (\<forall>k. trace (snd (run X K k (L_inner, m))) = trace m))
   \<and> fst (step X K (L_prologue, m)) = L_outer
   \<and> \<not> exiting (snd (step X K (L_prologue, m)))"
proof -
  have "trace (snd (run X K k (L_inner, m))) = trace m" if "exiting m" for k
  proof (cases k)
    case 0
    then show ?thesis by simp
  next
    case (Suc j)
    then show ?thesis using that by (cases j) (simp_all add: run_return)
  qed
  then show ?thesis by (simp add: run_return prologue_def Let_def)
qed

theorem exit_request_ends_loop_witness:
  "exiting exit_requested_machine
   \<and> run sample_collab sample_h (Suc 0) (L_outer, exit_requested_machine)
       = (L_return, exit_requested_machine)
   \<and> run sample_collab sample_h (Suc (Suc 0)) (L_inner, exit_requested_machine)
       = (L_return, exit_requested_machine)"
  using exit_request_ends_loop [of exit_requested_machine sample_collab sample_h 0]
  by (simp add: exit_requested_machine_def)

subsection \<open>Throttle\<close>




end
